theory Spec2Isabelle
  imports Main
begin

section \<open>The user controller of CodeCraftHub: registration and login\<close>

text \<open>
  The two request handlers of \<^verbatim>\<open>controllers/userController\<close> are embedded as
  functions from the collaborators' behaviour, the credential store and the request body
  to the store afterwards and the list of responses sent on \<^verbatim>\<open>res\<close>.
  \<^item> \<open>registerUser\<close> and \<open>loginUser\<close> are the handlers on a request whose
    \<^verbatim>\<open>req.body\<close> is an object; \<open>registerUser_request\<close> and \<open>loginUser_request\<close>
    are the whole calls, where \<^verbatim>\<open>req.body\<close> may be undefined and the destructuring in
    front of the \<^verbatim>\<open>try\<close> block then throws.
  \<^item> \<^verbatim>\<open>bcrypt\<close> is a third-party library: its two entry points are parameters
    (fields of \<open>env\<close>), and each may throw.
  \<^item> \<^verbatim>\<open>jsonwebtoken\<close> is a third-party library: \<open>jwt_sign\<close> follows its documented
    behaviour, with the token kept as its decoded claims and the key that signed it.
  \<^item> \<^verbatim>\<open>models/userModel\<close> is not among the sources: the store is modelled from the
    specification's Credential Store contract.
\<close>

subsection \<open>Values, requests and responses\<close>

text \<open>A field of the parsed JSON body; \<open>Undefined\<close> is what destructuring gives for an absent key.\<close>

datatype jsval = Undefined | Null | Num int | Str string

text \<open>\<^verbatim>\<open>req.body\<close>, with the four keys the API documents.\<close>

record request_body =
  username :: jsval
  email :: jsval
  password :: jsval
  role :: jsval

text \<open>A thrown JavaScript error; the catch blocks of both handlers take it without
  looking inside.\<close>

datatype exn = Error string

text \<open>A signed token, read as its decoded claims together with the signing key.\<close>

record jwt =
  jwt_id :: nat
  jwt_iat :: nat
  jwt_exp :: nat
  jwt_key :: string

text \<open>The three JSON bodies the handlers send:
  \<^verbatim>\<open>{ message }\<close>, \<^verbatim>\<open>{ error }\<close> and \<^verbatim>\<open>{ token }\<close>.\<close>

datatype json = Message string | ErrorJson string | TokenJson jwt

record response =
  status :: nat
  json :: json

subsection \<open>The credential store\<close>

datatype role_name = Student | Instructor | Admin

record user =
  user_id :: nat
  user_username :: string
  user_email :: string
  user_password :: string
  user_role :: role_name

text \<open>The store: whether the storage can be reached, and the records in insertion order.\<close>

record store =
  connected :: bool
  users :: "user list"

text \<open>The object handed to \<^verbatim>\<open>new User(...)\<close>.\<close>

record user_doc =
  doc_username :: jsval
  doc_email :: jsval
  doc_password :: string
  doc_role :: jsval

definition str_of :: "jsval \<Rightarrow> string option" where
  "str_of v = (case v of Str s \<Rightarrow> Some s | _ \<Rightarrow> None)"

text \<open>Modelled from the spec: the role enumeration of \<^verbatim>\<open>models/userModel\<close>
  (absent from the sources): one of student, instructor, admin; student when omitted.\<close>

definition role_of :: "jsval \<Rightarrow> role_name option" where
  "role_of v =
     (case v of
        Undefined \<Rightarrow> Some Student
      | Str s \<Rightarrow>
          (if s = ''student'' then Some Student
           else if s = ''instructor'' then Some Instructor
           else if s = ''admin'' then Some Admin
           else None)
      | _ \<Rightarrow> None)"

definition find_email :: "string \<Rightarrow> user list \<Rightarrow> user option" where
  "find_email e us = find (\<lambda>x. user_email x = e) us"

text \<open>Modelled from the spec: the identifier the store assigns on creation
  (\<^verbatim>\<open>_id\<close>), opaque and unique: one more than every identifier in use.\<close>

definition fresh_id :: "user list \<Rightarrow> nat" where
  "fresh_id us = Suc (fold max (map user_id us) 0)"

text \<open>Modelled from the spec: \<^verbatim>\<open>newUser.save()\<close> of \<^verbatim>\<open>models/userModel\<close>
  (absent from the sources), after the Credential Store's \<open>create\<close>: it persists a new
  record and assigns its id, and fails on a storage failure (the store cannot be reached)
  or a constraint violation (username a non-empty string, email a string that no record
  holds yet, role in the enumeration).\<close>

definition User_save :: "store \<Rightarrow> user_doc \<Rightarrow> exn + store" where
  "User_save st d =
     (if \<not> connected st then Inl (Error ''PersistenceError'')
      else case str_of (doc_username d) of
        None \<Rightarrow> Inl (Error ''PersistenceError'')
      | Some u \<Rightarrow>
         (case str_of (doc_email d) of
            None \<Rightarrow> Inl (Error ''PersistenceError'')
          | Some e \<Rightarrow>
             (case role_of (doc_role d) of
                None \<Rightarrow> Inl (Error ''PersistenceError'')
              | Some r \<Rightarrow>
                 (if u = [] then Inl (Error ''PersistenceError'')
                  else case find_email e (users st) of
                    Some other \<Rightarrow> Inl (Error ''PersistenceError'')
                  | None \<Rightarrow>
                      Inr (st\<lparr>users := users st @
                        [\<lparr>user_id = fresh_id (users st), user_username = u, user_email = e,
                          user_password = doc_password d, user_role = r\<rparr>]\<rparr>)))))"

text \<open>Modelled from the spec: \<^verbatim>\<open>User.findOne({ email })\<close> of \<^verbatim>\<open>models/userModel\<close>
  (absent from the sources), after the Credential Store's \<open>findByEmail\<close>: the record
  with that email or the not-found signal (\<^verbatim>\<open>null\<close>); it fails only when the storage
  cannot be reached.\<close>

definition User_findOne :: "store \<Rightarrow> jsval \<Rightarrow> exn + user option" where
  "User_findOne st e =
     (if \<not> connected st then Inl (Error ''PersistenceError'')
      else case str_of e of
        None \<Rightarrow> Inr None
      | Some s \<Rightarrow> Inr (find_email s (users st)))"

subsection \<open>The libraries and the process environment\<close>

text \<open>What a handler run depends on besides the store and the request:
  \<^verbatim>\<open>bcrypt.hash\<close> and \<^verbatim>\<open>bcrypt.compare\<close> (salted, so a function of the run),
  \<^verbatim>\<open>process.env.JWT_SECRET\<close>, and the clock in seconds.\<close>

record env =
  bcrypt_hash :: "jsval \<Rightarrow> nat \<Rightarrow> exn + string"
  bcrypt_compare :: "jsval \<Rightarrow> string \<Rightarrow> exn + bool"
  JWT_SECRET :: "string option"
  now :: nat

text \<open>JavaScript's \<^verbatim>\<open>a || b\<close> on an environment variable: an unset variable and the
  empty string are both falsy.\<close>

definition or_else :: "string option \<Rightarrow> string \<Rightarrow> string" where
  "or_else a b = (case a of None \<Rightarrow> b | Some s \<Rightarrow> if s = [] then b else s)"

text \<open>The time spans \<^verbatim>\<open>jsonwebtoken\<close> accepts for \<^verbatim>\<open>expiresIn\<close>, in seconds:
  decimal digits followed by one of the units s, m, h, d.\<close>

definition digit :: "char \<Rightarrow> nat option" where
  "digit c = (let n = (of_char c :: nat) in if 48 \<le> n then (if n \<le> 57 then Some (n - 48) else None) else None)"

fun number :: "string \<Rightarrow> nat \<Rightarrow> nat option" where
  "number [] acc = Some acc"
| "number (c # cs) acc = (case digit c of None \<Rightarrow> None | Some d \<Rightarrow> number cs (10 * acc + d))"

definition unit_seconds :: "char \<Rightarrow> nat option" where
  "unit_seconds c =
     (if c = CHR ''s'' then Some 1
      else if c = CHR ''m'' then Some 60
      else if c = CHR ''h'' then Some 3600
      else if c = CHR ''d'' then Some 86400
      else None)"

definition timespan :: "string \<Rightarrow> nat option" where
  "timespan s =
     (case rev s of
        [] \<Rightarrow> None
      | u # ds \<Rightarrow>
          (if ds = [] then None
           else case number (rev ds) 0 of
             None \<Rightarrow> None
           | Some n \<Rightarrow> (case unit_seconds u of None \<Rightarrow> None | Some k \<Rightarrow> Some (n * k))))"

text \<open>\<^verbatim>\<open>jwt.sign({ id }, secretOrPrivateKey, { expiresIn })\<close>: throws on an empty key or
  a malformed time span; otherwise the token carries the payload's id, the issuance time
  and the expiry, issuance time plus the span.\<close>

definition jwt_sign :: "nat \<Rightarrow> nat \<Rightarrow> string \<Rightarrow> string \<Rightarrow> exn + jwt" where
  "jwt_sign clock payload_id secretOrPrivateKey expiresIn =
     (if secretOrPrivateKey = [] then Inl (Error ''secretOrPrivateKey must have a value'')
      else case timespan expiresIn of
        None \<Rightarrow> Inl (Error ''invalid expiresIn option'')
      | Some ttl \<Rightarrow>
          Inr \<lparr>jwt_id = payload_id, jwt_iat = clock, jwt_exp = clock + ttl,
               jwt_key = secretOrPrivateKey\<rparr>)"

subsection \<open>The handlers\<close>

text \<open>\<^verbatim>\<open>exports.registerUser\<close>: destructure username, email and password; hash the
  password with cost 10; build the user from username, email and the hash; save it;
  answer 201, or 500 from the catch block.\<close>

definition registerUser :: "env \<Rightarrow> store \<Rightarrow> request_body \<Rightarrow> store \<times> response list" where
  "registerUser env st body =
     (case bcrypt_hash env (password body) 10 of
        Inl error \<Rightarrow> (st, [\<lparr>status = 500, json = ErrorJson ''Registration failed.''\<rparr>])
      | Inr hashedPassword \<Rightarrow>
          (case User_save st \<lparr>doc_username = username body, doc_email = email body,
                              doc_password = hashedPassword, doc_role = Undefined\<rparr> of
             Inl error \<Rightarrow> (st, [\<lparr>status = 500, json = ErrorJson ''Registration failed.''\<rparr>])
           | Inr st' \<Rightarrow>
               (st', [\<lparr>status = 201, json = Message ''User registered successfully.''\<rparr>])))"

text \<open>\<^verbatim>\<open>exports.loginUser\<close>: destructure email and password; look the user up by
  email (404 when there is none); compare the password with the stored hash (401 on a
  mismatch); sign a token for the user's id that expires in one hour; answer 200 with
  the token, or 500 from the catch block.\<close>

definition loginUser :: "env \<Rightarrow> store \<Rightarrow> request_body \<Rightarrow> store \<times> response list" where
  "loginUser env st body =
     (case User_findOne st (email body) of
        Inl error \<Rightarrow> (st, [\<lparr>status = 500, json = ErrorJson ''Login failed.''\<rparr>])
      | Inr None \<Rightarrow> (st, [\<lparr>status = 404, json = ErrorJson ''User not found.''\<rparr>])
      | Inr (Some user) \<Rightarrow>
          (case bcrypt_compare env (password body) (user_password user) of
             Inl error \<Rightarrow> (st, [\<lparr>status = 500, json = ErrorJson ''Login failed.''\<rparr>])
           | Inr isMatch \<Rightarrow>
               (if \<not> isMatch then (st, [\<lparr>status = 401, json = ErrorJson ''Invalid credentials.''\<rparr>])
                else case jwt_sign (now env) (user_id user) (or_else (JWT_SECRET env) ''secret'') ''1h'' of
                  Inl error \<Rightarrow> (st, [\<lparr>status = 500, json = ErrorJson ''Login failed.''\<rparr>])
                | Inr token \<Rightarrow> (st, [\<lparr>status = 200, json = TokenJson token\<rparr>]))))"

subsection \<open>The handlers from the request\<close>

text \<open>What a call of a handler leaves behind: the store, the responses sent on
  \<^verbatim>\<open>res\<close>, and the error the handler's promise rejected with when one escaped.\<close>

record outcome =
  store_after :: store
  sent :: "response list"
  escaped :: "exn option"

text \<open>\<^verbatim>\<open>const { username, email, password } = req.body\<close> is the first statement of
  \<^verbatim>\<open>exports.registerUser\<close> and stands in front of the \<^verbatim>\<open>try\<close> block. When no
  body was parsed, \<^verbatim>\<open>req.body\<close> is undefined (\<open>None\<close>) and the destructuring throws
  a TypeError that no catch block takes: nothing has run, nothing is sent, and the
  promise rejects. Otherwise the handler runs on the body.\<close>

definition registerUser_request :: "env \<Rightarrow> store \<Rightarrow> request_body option \<Rightarrow> outcome" where
  "registerUser_request env st req_body =
     (case req_body of
        None \<Rightarrow> \<lparr>store_after = st, sent = [], escaped = Some (Error ''TypeError'')\<rparr>
      | Some body \<Rightarrow>
          \<lparr>store_after = fst (registerUser env st body),
           sent = snd (registerUser env st body), escaped = None\<rparr>)"

text \<open>\<^verbatim>\<open>const { email, password } = req.body\<close> stands in front of the \<^verbatim>\<open>try\<close>
  block of \<^verbatim>\<open>exports.loginUser\<close> in the same way.\<close>

definition loginUser_request :: "env \<Rightarrow> store \<Rightarrow> request_body option \<Rightarrow> outcome" where
  "loginUser_request env st req_body =
     (case req_body of
        None \<Rightarrow> \<lparr>store_after = st, sent = [], escaped = Some (Error ''TypeError'')\<rparr>
      | Some body \<Rightarrow>
          \<lparr>store_after = fst (loginUser env st body),
           sent = snd (loginUser env st body), escaped = None\<rparr>)"

subsection \<open>A test double for closed examples\<close>

text \<open>A stand-in for \<^verbatim>\<open>bcrypt\<close> used only in the closed examples below: it rejects
  data that is not a string, as the library does, and marks the password instead of
  hashing it.\<close>

definition stub_hash :: "jsval \<Rightarrow> nat \<Rightarrow> exn + string" where
  "stub_hash data rounds =
     (case str_of data of
        None \<Rightarrow> Inl (Error ''data and salt arguments required'')
      | Some s \<Rightarrow> Inr (''hashed:'' @ s))"

definition stub_compare :: "jsval \<Rightarrow> string \<Rightarrow> exn + bool" where
  "stub_compare data encrypted =
     (case str_of data of
        None \<Rightarrow> Inl (Error ''data and hash arguments required'')
      | Some s \<Rightarrow> Inr (encrypted = ''hashed:'' @ s))"

definition stub_env :: env where
  "stub_env = \<lparr>bcrypt_hash = stub_hash, bcrypt_compare = stub_compare,
               JWT_SECRET = None, now = 1000\<rparr>"

definition empty_store :: store where
  "empty_store = \<lparr>connected = True, users = []\<rparr>"

definition alice :: user where
  "alice = \<lparr>user_id = 1, user_username = ''alice'', user_email = ''alice@x.com'',
            user_password = ''hashed:pw123456'', user_role = Student\<rparr>"

definition alice_store :: store where
  "alice_store = \<lparr>connected = True, users = [alice]\<rparr>"

subsection \<open>Basic facts\<close>

lemma timespan_1h: "timespan ''1h'' = Some 3600"
  by (simp add: timespan_def digit_def unit_seconds_def)

lemma or_else_nonempty: "or_else a ''secret'' \<noteq> []"
  by (simp add: or_else_def split: option.splits)

lemma jwt_sign_1h:
  "k \<noteq> [] \<Longrightarrow> jwt_sign c i k ''1h'' = Inr \<lparr>jwt_id = i, jwt_iat = c, jwt_exp = c + 3600, jwt_key = k\<rparr>"
  by (simp add: jwt_sign_def timespan_1h)

lemma find_email_append_new:
  "find_email e us = None \<Longrightarrow> user_email x = e \<Longrightarrow> find_email e (us @ [x]) = Some x"
  unfolding find_email_def by (induction us) (auto split: if_splits)

lemma find_email_SomeD:
  "find_email e us = Some x \<Longrightarrow> user_email x = e \<and> x \<in> set us"
  unfolding find_email_def by (induction us) (auto split: if_splits)

lemma User_findOne_SomeD:
  assumes "User_findOne st v = Inr (Some x)"
  shows "v = Str (user_email x) \<and> x \<in> set (users st) \<and> connected st"
proof -
  from assms have c: "connected st"
    by (simp add: User_findOne_def split: if_splits)
  from assms c obtain s where s: "v = Str s" and f: "find_email s (users st) = Some x"
    by (cases v) (simp_all add: User_findOne_def str_of_def)
  from find_email_SomeD [OF f] s c show ?thesis by simp
qed

lemma User_save_fresh:
  assumes "connected st" and "find_email e (users st) = None" and "u \<noteq> []"
  shows "User_save st \<lparr>doc_username = Str u, doc_email = Str e, doc_password = h, doc_role = Undefined\<rparr>
         = Inr (st\<lparr>users := users st @ [\<lparr>user_id = fresh_id (users st), user_username = u,
                 user_email = e, user_password = h, user_role = Student\<rparr>]\<rparr>)"
  using assms by (simp add: User_save_def str_of_def role_of_def)

text \<open>The request's role never reaches the store: the user is built from username,
  email and the hash alone.\<close>

lemma registerUser_ignores_role: "registerUser env st (b\<lparr>role := r\<rparr>) = registerUser env st b"
  by (simp add: registerUser_def split: sum.splits)

lemma registerUser_responses:
  "snd (registerUser env st b) = [\<lparr>status = 201, json = Message ''User registered successfully.''\<rparr>]
   \<or> snd (registerUser env st b) = [\<lparr>status = 500, json = ErrorJson ''Registration failed.''\<rparr>]"
  by (simp add: registerUser_def split: sum.splits)

lemma registerUser_failed_keeps_store:
  "snd (registerUser env st b) = [\<lparr>status = 500, json = ErrorJson ''Registration failed.''\<rparr>]
   \<Longrightarrow> fst (registerUser env st b) = st"
  by (simp add: registerUser_def split: sum.splits)

lemma loginUser_found_matched:
  assumes "User_findOne st (email b) = Inr (Some u)"
    and "bcrypt_compare env (password b) (user_password u) = Inr True"
  shows "loginUser env st b = (st, [\<lparr>status = 200, json = TokenJson
           \<lparr>jwt_id = user_id u, jwt_iat = now env, jwt_exp = now env + 3600,
            jwt_key = or_else (JWT_SECRET env) ''secret''\<rparr>\<rparr>])"
  using assms by (simp add: loginUser_def jwt_sign_1h or_else_nonempty)

lemmas stub_simps = stub_env_def stub_hash_def stub_compare_def empty_store_def alice_store_def
  alice_def str_of_def role_of_def find_email_def fresh_id_def User_save_def User_findOne_def

subsection \<open>Registration\<close>

text \<open>C1. The claim: a Register request in which username, email or password is absent
  fails with ValidationError (400) before any collaborator is invoked. The handler has no
  such check: for every such request, with any hasher and any store, it sends exactly
  one response, whose status is 201 or 500 and never 400.\<close>

theorem registerUser_absent_field_never_400:
  assumes "username b = Undefined \<or> email b = Undefined \<or> password b = Undefined"
  shows "\<exists>r. snd (registerUser env st b) = [r] \<and> status r \<noteq> 400
           \<and> (status r = 201 \<or> status r = 500)"
  using registerUser_responses [of env st b] by auto

theorem registerUser_absent_field_never_400_witness:
  "password \<lparr>username = Str ''alice'', email = Str ''alice@x.com'', password = Undefined,
             role = Undefined\<rparr> = Undefined
   \<and> registerUser stub_env empty_store
        \<lparr>username = Str ''alice'', email = Str ''alice@x.com'', password = Undefined,
         role = Undefined\<rparr>
      = (empty_store, [\<lparr>status = 500, json = ErrorJson ''Registration failed.''\<rparr>])
   \<and> (\<exists>r. snd (registerUser stub_env empty_store
        \<lparr>username = Str ''alice'', email = Str ''alice@x.com'', password = Undefined,
         role = Undefined\<rparr>) = [r] \<and> status r \<noteq> 400 \<and> (status r = 201 \<or> status r = 500))"
  using registerUser_absent_field_never_400
    [of "\<lparr>username = Str ''alice'', email = Str ''alice@x.com'', password = Undefined,
         role = Undefined\<rparr>" stub_env empty_store]
  by (simp add: registerUser_def stub_env_def stub_hash_def str_of_def)

text \<open>C2. The claim: the created record's role is the request's role when supplied.
  Registering bob with role admin creates a record whose role is student: the handler
  destructures username, email and password only, so the store applies its default.\<close>

theorem registerUser_role_admin_stored_student:
  "map user_role (users (fst (registerUser stub_env empty_store
      \<lparr>username = Str ''bob'', email = Str ''bob@x.com'', password = Str ''pw123456'',
       role = Str ''admin''\<rparr>))) = [Student]"
  by (simp add: registerUser_def stub_env_def stub_hash_def empty_store_def User_save_def
      str_of_def role_of_def find_email_def)

subsection \<open>Registration followed by login\<close>

text \<open>C3. For every username, email and password that are strings, the username not
  empty and the email not yet registered in a store that can be reached, with a hasher
  that hashes the password and verifies it against that hash: Register answers 201, and
  Login with the same email and password against the resulting store answers 200 with a
  token.\<close>

theorem register_then_login_succeeds:
  assumes "connected st" and "find_email e (users st) = None" and "u \<noteq> []"
    and "bcrypt_hash env (Str p) 10 = Inr h" and "bcrypt_compare env (Str p) h = Inr True"
  shows "\<exists>st' t.
     registerUser env st \<lparr>username = Str u, email = Str e, password = Str p, role = r\<rparr>
       = (st', [\<lparr>status = 201, json = Message ''User registered successfully.''\<rparr>])
     \<and> loginUser env st' \<lparr>username = x, email = Str e, password = Str p, role = y\<rparr>
       = (st', [\<lparr>status = 200, json = TokenJson t\<rparr>])"
proof -
  let ?new = "\<lparr>user_id = fresh_id (users st), user_username = u, user_email = e,
               user_password = h, user_role = Student\<rparr>"
  let ?st' = "st\<lparr>users := users st @ [?new]\<rparr>"
  have reg: "registerUser env st \<lparr>username = Str u, email = Str e, password = Str p, role = r\<rparr>
       = (?st', [\<lparr>status = 201, json = Message ''User registered successfully.''\<rparr>])"
    using assms by (simp add: registerUser_def User_save_fresh)
  have "find_email e (users ?st') = Some ?new"
    using assms(2) by (simp add: find_email_append_new)
  then have look: "User_findOne ?st' (Str e) = Inr (Some ?new)"
    using assms(1) by (simp add: User_findOne_def str_of_def)
  have "loginUser env ?st' \<lparr>username = x, email = Str e, password = Str p, role = y\<rparr>
       = (?st', [\<lparr>status = 200, json = TokenJson \<lparr>jwt_id = fresh_id (users st), jwt_iat = now env,
             jwt_exp = now env + 3600, jwt_key = or_else (JWT_SECRET env) ''secret''\<rparr>\<rparr>])"
    using look assms(5) by (simp add: loginUser_found_matched)
  with reg show ?thesis by blast
qed

theorem register_then_login_succeeds_witness:
  "connected empty_store \<and> find_email ''alice@x.com'' (users empty_store) = None
   \<and> ''alice'' \<noteq> []
   \<and> bcrypt_hash stub_env (Str ''pw123456'') 10 = Inr ''hashed:pw123456''
   \<and> bcrypt_compare stub_env (Str ''pw123456'') ''hashed:pw123456'' = Inr True
   \<and> (\<exists>st' t.
       registerUser stub_env empty_store
         \<lparr>username = Str ''alice'', email = Str ''alice@x.com'', password = Str ''pw123456'',
          role = Undefined\<rparr>
         = (st', [\<lparr>status = 201, json = Message ''User registered successfully.''\<rparr>])
       \<and> loginUser stub_env st'
         \<lparr>username = Undefined, email = Str ''alice@x.com'', password = Str ''pw123456'',
          role = Undefined\<rparr>
         = (st', [\<lparr>status = 200, json = TokenJson t\<rparr>]))"
proof -
  have h1: "connected empty_store" by (simp add: empty_store_def)
  have h2: "find_email ''alice@x.com'' (users empty_store) = None"
    by (simp add: empty_store_def find_email_def)
  have h3: "''alice'' \<noteq> []" by simp
  have h4: "bcrypt_hash stub_env (Str ''pw123456'') 10 = Inr ''hashed:pw123456''"
    by (simp add: stub_env_def stub_hash_def str_of_def)
  have h5: "bcrypt_compare stub_env (Str ''pw123456'') ''hashed:pw123456'' = Inr True"
    by (simp add: stub_env_def stub_compare_def str_of_def)
  from register_then_login_succeeds [OF h1 h2 h3 h4 h5, of Undefined Undefined Undefined]
    h1 h2 h3 h4 h5
  show ?thesis by simp
qed

subsection \<open>Login\<close>

text \<open>C4. For every Login request: when the lookup by the request's email finds no
  record, the operation answers 404 "User not found."; when it finds a record and the
  password does not verify against the stored hash, it answers 401 "Invalid
  credentials.". Either response carries an error body and no token, and the store is
  left as it was.\<close>

theorem loginUser_not_found_or_invalid_credentials:
  "(User_findOne st (email b) = Inr None \<longrightarrow>
      loginUser env st b = (st, [\<lparr>status = 404, json = ErrorJson ''User not found.''\<rparr>]))
   \<and> (\<forall>u. User_findOne st (email b) = Inr (Some u)
          \<and> bcrypt_compare env (password b) (user_password u) = Inr False \<longrightarrow>
      loginUser env st b = (st, [\<lparr>status = 401, json = ErrorJson ''Invalid credentials.''\<rparr>]))"
  by (simp add: loginUser_def)

theorem loginUser_not_found_or_invalid_credentials_witness:
  "User_findOne alice_store (Str ''nobody@x.com'') = Inr None
   \<and> loginUser stub_env alice_store
        \<lparr>username = Undefined, email = Str ''nobody@x.com'', password = Str ''x'',
         role = Undefined\<rparr>
      = (alice_store, [\<lparr>status = 404, json = ErrorJson ''User not found.''\<rparr>])
   \<and> User_findOne alice_store (Str ''alice@x.com'') = Inr (Some alice)
   \<and> bcrypt_compare stub_env (Str ''wrong'') (user_password alice) = Inr False
   \<and> loginUser stub_env alice_store
        \<lparr>username = Undefined, email = Str ''alice@x.com'', password = Str ''wrong'',
         role = Undefined\<rparr>
      = (alice_store, [\<lparr>status = 401, json = ErrorJson ''Invalid credentials.''\<rparr>])"
proof -
  let ?b1 = "\<lparr>username = Undefined, email = Str ''nobody@x.com'', password = Str ''x'',
         role = Undefined\<rparr>"
  let ?b2 = "\<lparr>username = Undefined, email = Str ''alice@x.com'', password = Str ''wrong'',
         role = Undefined\<rparr>"
  have h1: "User_findOne alice_store (Str ''nobody@x.com'') = Inr None"
    by (simp add: User_findOne_def alice_store_def alice_def str_of_def find_email_def)
  have h2: "User_findOne alice_store (Str ''alice@x.com'') = Inr (Some alice)"
    by (simp add: User_findOne_def alice_store_def alice_def str_of_def find_email_def)
  have h3: "bcrypt_compare stub_env (Str ''wrong'') (user_password alice) = Inr False"
    by (simp add: stub_env_def stub_compare_def str_of_def alice_def)
  from loginUser_not_found_or_invalid_credentials [of alice_store ?b1 stub_env]
    loginUser_not_found_or_invalid_credentials [of alice_store ?b2 stub_env] h1 h2 h3
  show ?thesis by simp
qed

text \<open>C5. For every successful Login (a response of status 200), the response carries a
  token; the token's subject is the id of the record the lookup found for the request's
  email, the token is issued at the current time, and it expires exactly 3600 seconds
  (one hour) after its issuance.\<close>

theorem loginUser_token_subject_and_expiry:
  assumes "snd (loginUser env st b) = [r]" and "status r = 200"
  shows "\<exists>u t. User_findOne st (email b) = Inr (Some u) \<and> u \<in> set (users st)
           \<and> email b = Str (user_email u) \<and> json r = TokenJson t
           \<and> jwt_id t = user_id u \<and> jwt_iat t = now env \<and> jwt_exp t = jwt_iat t + 3600"
proof -
  from assms obtain u t where u: "User_findOne st (email b) = Inr (Some u)"
    and t: "json r = TokenJson t" "jwt_id t = user_id u" "jwt_iat t = now env"
      "jwt_exp t = jwt_iat t + 3600"
    by (auto simp: loginUser_def jwt_sign_1h or_else_nonempty
        split: sum.splits option.splits if_splits)
  from User_findOne_SomeD [OF u] u t show ?thesis by blast
qed

theorem loginUser_token_subject_and_expiry_witness:
  "snd (loginUser stub_env alice_store
      \<lparr>username = Undefined, email = Str ''alice@x.com'', password = Str ''pw123456'',
       role = Undefined\<rparr>)
     = [\<lparr>status = 200, json = TokenJson \<lparr>jwt_id = 1, jwt_iat = 1000, jwt_exp = 4600,
           jwt_key = ''secret''\<rparr>\<rparr>]
   \<and> (\<exists>u t. u \<in> set (users alice_store) \<and> user_email u = ''alice@x.com''
          \<and> t = \<lparr>jwt_id = 1, jwt_iat = 1000, jwt_exp = 4600, jwt_key = ''secret''\<rparr>
          \<and> jwt_id t = user_id u \<and> jwt_exp t = jwt_iat t + 3600)"
proof -
  let ?b = "\<lparr>username = Undefined, email = Str ''alice@x.com'', password = Str ''pw123456'',
       role = Undefined\<rparr>"
  let ?r = "\<lparr>status = 200, json = TokenJson \<lparr>jwt_id = 1, jwt_iat = 1000, jwt_exp = 4600,
           jwt_key = ''secret''\<rparr>\<rparr>"
  have run: "snd (loginUser stub_env alice_store ?b) = [?r]"
    by (simp add: loginUser_def stub_simps jwt_sign_1h or_else_def)
  have ok: "status ?r = 200" by simp
  from loginUser_token_subject_and_expiry [OF run ok] run show ?thesis by auto
qed

text \<open>C6. When the lookup finds a record and the password verifies, Login answers 200
  with a token whatever the configuration: the token is signed with the configured
  secret key when one is configured (set and not empty), and with the constant
  "secret" when none is (unset, or set to the empty string).\<close>

theorem loginUser_signing_secret:
  assumes "User_findOne st (email b) = Inr (Some u)"
    and "bcrypt_compare env (password b) (user_password u) = Inr True"
  shows "\<exists>t. loginUser env st b = (st, [\<lparr>status = 200, json = TokenJson t\<rparr>])
     \<and> (\<forall>k. JWT_SECRET env = Some k \<and> k \<noteq> [] \<longrightarrow> jwt_key t = k)
     \<and> (JWT_SECRET env = None \<or> JWT_SECRET env = Some [] \<longrightarrow> jwt_key t = ''secret'')"
proof -
  have "loginUser env st b = (st, [\<lparr>status = 200, json = TokenJson
           \<lparr>jwt_id = user_id u, jwt_iat = now env, jwt_exp = now env + 3600,
            jwt_key = or_else (JWT_SECRET env) ''secret''\<rparr>\<rparr>])"
    using assms by (rule loginUser_found_matched)
  then show ?thesis by (auto simp: or_else_def)
qed

theorem loginUser_signing_secret_witness:
  "(\<exists>t. loginUser (stub_env\<lparr>JWT_SECRET := Some ''k3y''\<rparr>) alice_store
        \<lparr>username = Undefined, email = Str ''alice@x.com'', password = Str ''pw123456'',
         role = Undefined\<rparr>
        = (alice_store, [\<lparr>status = 200, json = TokenJson t\<rparr>]) \<and> jwt_key t = ''k3y'')
   \<and> (\<exists>t. loginUser stub_env alice_store
        \<lparr>username = Undefined, email = Str ''alice@x.com'', password = Str ''pw123456'',
         role = Undefined\<rparr>
        = (alice_store, [\<lparr>status = 200, json = TokenJson t\<rparr>]) \<and> jwt_key t = ''secret'')"
proof -
  let ?b = "\<lparr>username = Undefined, email = Str ''alice@x.com'', password = Str ''pw123456'',
         role = Undefined\<rparr>"
  let ?env = "stub_env\<lparr>JWT_SECRET := Some ''k3y''\<rparr>"
  have h1: "User_findOne alice_store (email ?b) = Inr (Some alice)"
    by (simp add: User_findOne_def alice_store_def alice_def str_of_def find_email_def)
  have h2: "bcrypt_compare stub_env (password ?b) (user_password alice) = Inr True"
    by (simp add: stub_env_def stub_compare_def str_of_def alice_def)
  have h3: "bcrypt_compare ?env (password ?b) (user_password alice) = Inr True"
    by (simp add: stub_env_def stub_compare_def str_of_def alice_def)
  have s1: "JWT_SECRET ?env = Some ''k3y''" by simp
  have s2: "JWT_SECRET stub_env = None" by (simp add: stub_env_def)
  from loginUser_signing_secret [OF h1 h3] s1 loginUser_signing_secret [OF h1 h2] s2
  show ?thesis by auto
qed

subsection \<open>What the responses carry\<close>

text \<open>C8. The response to a Register request is one of two fixed bodies: the message
  "User registered successfully." with status 201, or the error "Registration failed."
  with status 500; neither holds a token, a record, the password or its hash. The
  response to a Login request is one of three fixed errors, or status 200 with a token
  made of the found record's id, the clock and the signing key: no response holds the
  stored password hash.\<close>

theorem responses_carry_no_password:
  "(snd (registerUser env st b) = [\<lparr>status = 201, json = Message ''User registered successfully.''\<rparr>]
    \<or> snd (registerUser env st b) = [\<lparr>status = 500, json = ErrorJson ''Registration failed.''\<rparr>])
   \<and> (snd (loginUser env st c) = [\<lparr>status = 404, json = ErrorJson ''User not found.''\<rparr>]
    \<or> snd (loginUser env st c) = [\<lparr>status = 401, json = ErrorJson ''Invalid credentials.''\<rparr>]
    \<or> snd (loginUser env st c) = [\<lparr>status = 500, json = ErrorJson ''Login failed.''\<rparr>]
    \<or> (\<exists>u. User_findOne st (email c) = Inr (Some u)
          \<and> snd (loginUser env st c) = [\<lparr>status = 200, json = TokenJson
               \<lparr>jwt_id = user_id u, jwt_iat = now env, jwt_exp = now env + 3600,
                jwt_key = or_else (JWT_SECRET env) ''secret''\<rparr>\<rparr>]))"
proof
  show "snd (registerUser env st b) = [\<lparr>status = 201, json = Message ''User registered successfully.''\<rparr>]
    \<or> snd (registerUser env st b) = [\<lparr>status = 500, json = ErrorJson ''Registration failed.''\<rparr>]"
    by (rule registerUser_responses)
next
  show "snd (loginUser env st c) = [\<lparr>status = 404, json = ErrorJson ''User not found.''\<rparr>]
    \<or> snd (loginUser env st c) = [\<lparr>status = 401, json = ErrorJson ''Invalid credentials.''\<rparr>]
    \<or> snd (loginUser env st c) = [\<lparr>status = 500, json = ErrorJson ''Login failed.''\<rparr>]
    \<or> (\<exists>u. User_findOne st (email c) = Inr (Some u)
          \<and> snd (loginUser env st c) = [\<lparr>status = 200, json = TokenJson
               \<lparr>jwt_id = user_id u, jwt_iat = now env, jwt_exp = now env + 3600,
                jwt_key = or_else (JWT_SECRET env) ''secret''\<rparr>\<rparr>])"
    by (simp add: loginUser_def jwt_sign_1h or_else_nonempty split: sum.splits option.splits)
qed

theorem responses_carry_no_password_witness:
  "snd (registerUser stub_env empty_store
      \<lparr>username = Str ''alice'', email = Str ''alice@x.com'', password = Str ''pw123456'',
       role = Undefined\<rparr>)
     = [\<lparr>status = 201, json = Message ''User registered successfully.''\<rparr>]
   \<and> snd (loginUser stub_env alice_store
      \<lparr>username = Undefined, email = Str ''alice@x.com'', password = Str ''pw123456'',
       role = Undefined\<rparr>)
     = [\<lparr>status = 200, json = TokenJson \<lparr>jwt_id = 1, jwt_iat = 1000, jwt_exp = 4600,
           jwt_key = ''secret''\<rparr>\<rparr>]"
proof -
  let ?b = "\<lparr>username = Str ''alice'', email = Str ''alice@x.com'', password = Str ''pw123456'',
       role = Undefined\<rparr>"
  let ?c = "\<lparr>username = Undefined, email = Str ''alice@x.com'', password = Str ''pw123456'',
       role = Undefined\<rparr>"
  have look: "User_findOne alice_store (email ?c) = Inr (Some alice)"
    by (simp add: User_findOne_def alice_store_def alice_def str_of_def find_email_def)
  have reg: "snd (registerUser stub_env empty_store ?b)
      \<noteq> [\<lparr>status = 500, json = ErrorJson ''Registration failed.''\<rparr>]"
    by (simp add: registerUser_def stub_simps)
  have log: "status (hd (snd (loginUser stub_env alice_store ?c))) = 200"
    by (simp add: loginUser_def stub_simps jwt_sign_1h or_else_def)
  have vals: "user_id alice = 1" "now stub_env = 1000" "or_else (JWT_SECRET stub_env) ''secret'' = ''secret''"
    by (simp_all add: alice_def stub_env_def or_else_def)
  from responses_carry_no_password [of stub_env empty_store ?b ?c]
  have r: "snd (registerUser stub_env empty_store ?b)
      = [\<lparr>status = 201, json = Message ''User registered successfully.''\<rparr>]"
    using reg by blast
  from responses_carry_no_password [of stub_env alice_store ?b ?c] log look vals
  have l: "snd (loginUser stub_env alice_store ?c)
     = [\<lparr>status = 200, json = TokenJson \<lparr>jwt_id = 1, jwt_iat = 1000, jwt_exp = 4600,
           jwt_key = ''secret''\<rparr>\<rparr>]"
    by auto
  from r l show ?thesis by simp
qed

subsection \<open>The store under login\<close>

text \<open>C9. For every Login request and every starting store, whichever branch is taken
  (200, 404, 401 or 500), the store after the operation is the store before it.\<close>

theorem loginUser_store_unchanged: "fst (loginUser env st b) = st"
  by (simp add: loginUser_def split: sum.splits option.splits)

theorem loginUser_store_unchanged_witness:
  "fst (loginUser stub_env alice_store
      \<lparr>username = Undefined, email = Str ''alice@x.com'', password = Str ''pw123456'',
       role = Undefined\<rparr>) = alice_store
   \<and> users alice_store = [alice]"
  using loginUser_store_unchanged [of stub_env alice_store
      "\<lparr>username = Undefined, email = Str ''alice@x.com'', password = Str ''pw123456'',
       role = Undefined\<rparr>"]
  by (simp add: alice_store_def)

subsection \<open>The responses of a call\<close>

text \<open>On a request with a body, each handler sends exactly one response and lets no
  error escape: 201 or 500 for registration, 200, 404, 401 or 500 for login.\<close>

lemma registerUser_request_with_body:
  "\<exists>r. sent (registerUser_request env st (Some b)) = [r]
        \<and> (status r = 201 \<or> status r = 500)
        \<and> escaped (registerUser_request env st (Some b)) = None"
  by (simp add: registerUser_request_def registerUser_def split: sum.splits)

lemma loginUser_request_with_body:
  "\<exists>r. sent (loginUser_request env st (Some b)) = [r]
        \<and> (status r = 200 \<or> status r = 404 \<or> status r = 401 \<or> status r = 500)
        \<and> escaped (loginUser_request env st (Some b)) = None"
  by (simp add: loginUser_request_def loginUser_def split: sum.splits option.splits)


end
